theory Spec2Isabelle
  imports Complex_Main "HOL-Library.Word"
begin

section \<open>JavaScript values\<close>

text \<open>
  The two TypeScript sources verified here are the chat endpoint
  (\<^verbatim>\<open>frontend/app/api/chat/route.ts\<close>, the handler \<^verbatim>\<open>POST\<close>) and the chat page
  (\<^verbatim>\<open>ChatPage\<close> with \<^verbatim>\<open>handleSubmit\<close> and \<^verbatim>\<open>getConfidenceColor\<close>).

  A JavaScript string is a sequence of UTF-16 code units, so \<open>jsstring\<close> is a list of
  16-bit words; \<open>js\<close> turns an ASCII literal of the source into that form.
\<close>

type_synonym jsstring = "16 word list"

definition js :: "string \<Rightarrow> jsstring" where
  "js s = map of_char s"

text \<open>
  A JavaScript \<^verbatim>\<open>number\<close> is a double: every finite double is a rational (the sign of
  zero is not kept: no operation of the sources tells \<^verbatim>\<open>-0\<close> from \<^verbatim>\<open>0\<close>),
  and there are the two infinities and \<^verbatim>\<open>NaN\<close>.
\<close>

datatype number = NaN | NegInf | Finite rat | PosInf

text \<open>
  What \<^verbatim>\<open>JSON.parse\<close> returns. An object is the association list of its own
  properties, each key once, read with \<open>map_of\<close>.
\<close>

datatype json =
    JNull
  | JBool bool
  | JNum number
  | JStr jsstring
  | JArr "json list"
  | JObj "(jsstring \<times> json) list"

text \<open>The errors a stage can throw; each ends in the handler's \<^verbatim>\<open>catch\<close>.\<close>

datatype error = SyntaxError | TypeError | FetchFailed | BackendError

text \<open>
  \<^verbatim>\<open>ToBoolean\<close>: \<^verbatim>\<open>null\<close>, \<^verbatim>\<open>false\<close>, \<^verbatim>\<open>0\<close>, \<^verbatim>\<open>NaN\<close> and
  \<^verbatim>\<open>""\<close> are falsy, every array and object is truthy.
\<close>

fun truthy :: "json \<Rightarrow> bool" where
  "truthy JNull = False"
| "truthy (JBool b) = b"
| "truthy (JNum NaN) = False"
| "truthy (JNum (Finite r)) = (r \<noteq> 0)"
| "truthy (JNum NegInf) = True"
| "truthy (JNum PosInf) = True"
| "truthy (JStr s) = (s \<noteq> [])"
| "truthy (JArr xs) = True"
| "truthy (JObj kvs) = True"

text \<open>
  Reading a property \<^verbatim>\<open>v.k\<close> of a value that is neither \<^verbatim>\<open>null\<close> nor
  \<^verbatim>\<open>undefined\<close>; \<open>None\<close> is \<^verbatim>\<open>undefined\<close>. The keys the sources read this way
  (\<^verbatim>\<open>question\<close>, \<^verbatim>\<open>answer\<close>, \<^verbatim>\<open>references\<close>, \<^verbatim>\<open>evaluation\<close>,
  \<^verbatim>\<open>llm_evaluation\<close>, \<^verbatim>\<open>scores\<close>) are no property of a prototype, so only an
  object's own property gives a value.
\<close>

definition own_property :: "json \<Rightarrow> jsstring \<Rightarrow> json option" where
  "own_property v k = (case v of JObj kvs \<Rightarrow> map_of kvs k | _ \<Rightarrow> None)"

text \<open>\<^verbatim>\<open>v.k\<close>: reading a property of \<^verbatim>\<open>null\<close> throws a TypeError.\<close>

definition get_member :: "json \<Rightarrow> jsstring \<Rightarrow> error + json option" where
  "get_member v k = (if v = JNull then Inl TypeError else Inr (own_property v k))"

text \<open>\<^verbatim>\<open>x?.k\<close>: \<^verbatim>\<open>undefined\<close> when \<open>x\<close> is \<^verbatim>\<open>undefined\<close> or \<^verbatim>\<open>null\<close>.\<close>

definition optional_member :: "json option \<Rightarrow> jsstring \<Rightarrow> json option" where
  "optional_member x k = (case x of None \<Rightarrow> None | Some v \<Rightarrow> if v = JNull then None else own_property v k)"

text \<open>\<^verbatim>\<open>a || b\<close> with \<open>b\<close> a value.\<close>

definition or_else :: "json option \<Rightarrow> json \<Rightarrow> json" where
  "or_else a b = (case a of None \<Rightarrow> b | Some v \<Rightarrow> if truthy v then v else b)"

text \<open>
  \<^verbatim>\<open>s.split(sep)\<close> for a separator of one code unit: the pieces between the
  separators, so at least one piece.
\<close>

function split :: "'a \<Rightarrow> 'a list \<Rightarrow> 'a list list" where
  "split sep s =
     (case dropWhile (\<lambda>c. c \<noteq> sep) s of
        [] \<Rightarrow> [s]
      | _ # rest \<Rightarrow> takeWhile (\<lambda>c. c \<noteq> sep) s # split sep rest)"
  by pat_completeness auto
termination
proof (relation "measure (\<lambda>(sep, s). length s)")
  show "wf (measure (\<lambda>(sep::'a, s::'a list). length s))"
    by simp
next
  fix sep :: 'a and s :: "'a list" and x rest
  assume "dropWhile (\<lambda>c. c \<noteq> sep) s = x # rest"
  then have "length (x # rest) \<le> length s"
    using length_dropWhile_le [of "\<lambda>c. c \<noteq> sep" s] by simp
  then show "((sep, rest), (sep, s)) \<in> measure (\<lambda>(sep, s). length s)"
    by simp
qed

declare split.simps [simp del]

text \<open>\<^verbatim>\<open>xs.pop()\<close>: the last element, \<^verbatim>\<open>undefined\<close> on an empty array.\<close>

definition pop :: "'a list \<Rightarrow> 'a option" where
  "pop xs = (if xs = [] then None else Some (last xs))"

text \<open>
  \<^verbatim>\<open>JSON.stringify\<close> followed by the reader's \<^verbatim>\<open>JSON.parse\<close>: a number that is
  not finite is written as \<^verbatim>\<open>null\<close>; everything else \<^verbatim>\<open>JSON.parse\<close> can return is
  kept.
\<close>

primrec to_wire :: "json \<Rightarrow> json" where
  "to_wire JNull = JNull"
| "to_wire (JBool b) = JBool b"
| "to_wire (JNum n) = (case n of Finite r \<Rightarrow> JNum (Finite r) | _ \<Rightarrow> JNull)"
| "to_wire (JStr s) = JStr s"
| "to_wire (JArr xs) = JArr (map to_wire xs)"
| "to_wire (JObj kvs) = JObj (map (map_prod id to_wire) kvs)"

text \<open>
  A property of an object literal whose value may be \<^verbatim>\<open>undefined\<close>:
  \<^verbatim>\<open>JSON.stringify\<close> leaves such a property out.
\<close>

definition field :: "jsstring \<Rightarrow> json option \<Rightarrow> (jsstring \<times> json) list" where
  "field k v = (case v of None \<Rightarrow> [] | Some x \<Rightarrow> [(k, x)])"

section \<open>The chat endpoint: \<^verbatim>\<open>route.ts\<close>\<close>

text \<open>An HTTP response as the endpoint's caller sees it: the status and the JSON body.\<close>

record http_response =
  status :: nat
  body :: json

text \<open>\<^verbatim>\<open>NextResponse.json(value, { status })\<close>; the status is 200 when none is given.\<close>

definition NextResponse_json :: "json \<Rightarrow> nat \<Rightarrow> http_response" where
  "NextResponse_json v st = \<lparr>status = st, body = to_wire v\<rparr>"

text \<open>
  What \<^verbatim>\<open>fetch\<close> of the backend's \<^verbatim>\<open>/generate\<close> gives: the call rejects, or there is
  a response with its \<^verbatim>\<open>ok\<close> flag and its body (\<open>None\<close> when the body is not JSON,
  so that \<^verbatim>\<open>response.json()\<close> rejects).
\<close>

datatype backend_result = Rejected | Response bool "json option"

text \<open>
  The callback of \<^verbatim>\<open>data.references.map\<close>:
  \<^verbatim>\<open>(url: string) => ({ page_url: url, page_title: url.split('/').pop() || url })\<close>.
  The title is the last piece of the URL, or the URL when that piece is empty.
\<close>

definition page_title_of :: "jsstring \<Rightarrow> jsstring" where
  "page_title_of url =
     (case pop (split (of_char CHR ''/'') url) of
        None \<Rightarrow> url
      | Some t \<Rightarrow> if t = [] then url else t)"

text \<open>
  The annotation \<^verbatim>\<open>url: string\<close> is not checked when the code runs: an element that
  is no string has no callable \<^verbatim>\<open>split\<close>, and the call throws a TypeError.
\<close>

fun to_reference :: "json \<Rightarrow> error + json" where
  "to_reference (JStr url) =
     Inr (JObj [(js ''page_url'', JStr url), (js ''page_title'', JStr (page_title_of url))])"
| "to_reference _ = Inl TypeError"

text \<open>\<^verbatim>\<open>xs.map(f)\<close> for a callback that can throw: the first throw ends the loop.\<close>

fun map_throwing :: "('a \<Rightarrow> error + 'b) \<Rightarrow> 'a list \<Rightarrow> error + 'b list" where
  "map_throwing f [] = Inr []"
| "map_throwing f (x # xs) =
     (case f x of
        Inl e \<Rightarrow> Inl e
      | Inr y \<Rightarrow> (case map_throwing f xs of Inl e \<Rightarrow> Inl e | Inr ys \<Rightarrow> Inr (y # ys)))"

text \<open>
  \<^verbatim>\<open>data.references.map(...)\<close>: only an array has a callable \<^verbatim>\<open>map\<close>; on
  \<^verbatim>\<open>undefined\<close>, \<^verbatim>\<open>null\<close> or any other value the call throws a TypeError.
\<close>

definition map_references :: "json option \<Rightarrow> error + json list" where
  "map_references refs =
     (case refs of Some (JArr urls) \<Rightarrow> map_throwing to_reference urls | _ \<Rightarrow> Inl TypeError)"

text \<open>The object literal after \<^verbatim>\<open>||\<close> in the \<^verbatim>\<open>scores\<close> property.\<close>

definition default_scores :: json where
  "default_scores =
     JObj [(js ''factual_accuracy'', JNum (Finite 0)),
           (js ''relevance'', JNum (Finite 0)),
           (js ''completeness'', JNum (Finite 0)),
           (js ''context_usage'', JNum (Finite 0))]"

text \<open>\<^verbatim>\<open>data.evaluation?.llm_evaluation?.scores\<close>, for \<open>data\<close> that is not \<^verbatim>\<open>null\<close>.\<close>

definition backend_scores :: "json \<Rightarrow> json option" where
  "backend_scores data =
     optional_member (optional_member (own_property data (js ''evaluation'')) (js ''llm_evaluation'')) (js ''scores'')"

text \<open>
  The object handed to \<^verbatim>\<open>NextResponse.json\<close> for the backend's \<open>data\<close>
  (lines 31 to 43), or the error thrown while it is built.
\<close>

definition transform :: "json \<Rightarrow> error + json" where
  "transform data =
     (case get_member data (js ''answer'') of
        Inl e \<Rightarrow> Inl e
      | Inr answer \<Rightarrow>
          (case map_references (own_property data (js ''references'')) of
             Inl e \<Rightarrow> Inl e
           | Inr references \<Rightarrow>
               Inr (JObj (field (js ''answer'') answer @
                          [(js ''references'', JArr references),
                           (js ''scores'', or_else (backend_scores data) default_scores)]))))"

text \<open>
  The body of the request to the backend: \<^verbatim>\<open>JSON.stringify({ question })\<close>, where
  \<^verbatim>\<open>const { question } = await request.json()\<close> throws on \<^verbatim>\<open>null\<close>.
\<close>

definition backend_request :: "json \<Rightarrow> error + json" where
  "backend_request req =
     (case get_member req (js ''question'') of
        Inl e \<Rightarrow> Inl e
      | Inr question \<Rightarrow> Inr (to_wire (JObj (field (js ''question'') question))))"

text \<open>
  The \<^verbatim>\<open>try\<close> block of \<^verbatim>\<open>POST\<close>. \<open>request_json\<close> is the request's body as
  \<^verbatim>\<open>request.json()\<close> parses it (\<open>None\<close>: not JSON, the call rejects); \<open>fetch\<close> is
  the backend. The calls of \<^verbatim>\<open>console\<close> write a log and nothing else.
\<close>

definition try_POST :: "(json \<Rightarrow> backend_result) \<Rightarrow> json option \<Rightarrow> error + json" where
  "try_POST fetch request_json =
     (case request_json of
        None \<Rightarrow> Inl SyntaxError
      | Some req \<Rightarrow>
          (case backend_request req of
             Inl e \<Rightarrow> Inl e
           | Inr sent \<Rightarrow>
               (case fetch sent of
                  Rejected \<Rightarrow> Inl FetchFailed
                | Response ok json_body \<Rightarrow>
                    if \<not> ok then Inl BackendError
                    else (case json_body of
                            None \<Rightarrow> Inl SyntaxError
                          | Some data \<Rightarrow> transform data))))"

text \<open>The payload of the \<^verbatim>\<open>catch\<close> block.\<close>

definition error_payload :: json where
  "error_payload = JObj [(js ''error'', JStr (js ''Failed to process request''))]"

definition POST :: "(json \<Rightarrow> backend_result) \<Rightarrow> json option \<Rightarrow> http_response" where
  "POST fetch request_json =
     (case try_POST fetch request_json of
        Inr value \<Rightarrow> NextResponse_json value 200
      | Inl e \<Rightarrow> NextResponse_json error_payload 500)"

section \<open>The chat page: \<^verbatim>\<open>ChatPage\<close>\<close>

text \<open>
  \<^verbatim>\<open>interface Reference\<close> and \<^verbatim>\<open>interface Message\<close>. A field marked \<^verbatim>\<open>?\<close> is an
  option, \<open>None\<close> when the property is missing or \<^verbatim>\<open>undefined\<close>. The scores of a
  message are the value the endpoint gave, which \<^verbatim>\<open>handleSubmit\<close> stores unchecked:
  any JSON value.
\<close>

datatype sender = User | Agent

record reference =
  page_url :: jsstring
  page_title :: jsstring

record message =
  msg_id :: jsstring
  msg_type :: sender
  msg_text :: jsstring
  msg_references :: "reference list option"
  msg_scores :: "json option"

text \<open>
  The state \<^verbatim>\<open>handleSubmit\<close> reads and writes: \<^verbatim>\<open>question\<close>, \<^verbatim>\<open>loading\<close>,
  \<^verbatim>\<open>messages\<close> and \<^verbatim>\<open>showReferences\<close>. (\<^verbatim>\<open>loadingState\<close> is written by the
  animation effect only.)
\<close>

record chat_state =
  question :: jsstring
  loading :: bool
  messages :: "message list"
  showReferences :: "jsstring \<rightharpoonup> bool"

text \<open>
  The body of a response of \<^verbatim>\<open>/api/chat\<close> as \<^verbatim>\<open>res.json()\<close> gives it, held as
  \<^verbatim>\<open>any\<close>: the three properties \<^verbatim>\<open>handleSubmit\<close> reads. \<^verbatim>\<open>answer\<close> and
  \<^verbatim>\<open>scores\<close> are whatever JSON value the endpoint passed on from the backend
  (\<^verbatim>\<open>null\<close>, a number, an array and an object included). \<^verbatim>\<open>references\<close> is taken
  at the type \<^verbatim>\<open>Message\<close> declares: an ok response of the endpoint always has an array
  of \<^verbatim>\<open>{page_url, page_title}\<close> objects of strings there (lines 33 to 36 of
  \<^verbatim>\<open>route.ts\<close>).
\<close>

record chat_data =
  answer :: "json option"
  references :: "reference list option"
  scores :: "json option"

text \<open>
  \<open>NotJson\<close>: \<^verbatim>\<open>res.json()\<close> rejects. \<open>NullBody\<close>: it gives \<^verbatim>\<open>null\<close>, and reading
  \<^verbatim>\<open>data.answer\<close> throws.
\<close>

datatype chat_body = NotJson | NullBody | Data chat_data

datatype chat_result = ChatRejected | ChatResponse bool chat_body

text \<open>
  What \<^verbatim>\<open>handleSubmit\<close> takes from outside: the readings of \<^verbatim>\<open>Date.now()\<close> that
  reach a message's \<^verbatim>\<open>id\<close> (\<open>now_user\<close> for the user's message, \<open>now_agent\<close> for
  the agent's message that is appended, in the \<^verbatim>\<open>try\<close> block or in the \<^verbatim>\<open>catch\<close>
  block), the outcome of \<^verbatim>\<open>fetch('/api/chat', ...)\<close> for a question, and two functions
  of the runtime: \<^verbatim>\<open>String.prototype.toLowerCase\<close>, and \<^verbatim>\<open>Number::toString\<close> on
  the finite numbers.
\<close>

record env =
  now_user :: nat
  now_agent :: nat
  fetch_chat :: "jsstring \<Rightarrow> chat_result"
  toLowerCase :: "jsstring \<Rightarrow> jsstring"
  numberToString :: "rat \<Rightarrow> jsstring"

text \<open>
  The code units \<^verbatim>\<open>trim\<close> removes: the white space and the line terminators of
  ECMAScript (tab, LF, VT, FF, CR, space, NBSP, U+1680, U+2000 to U+200A, U+2028, U+2029,
  U+202F, U+205F, U+3000, U+FEFF).
\<close>

definition isWhiteSpace :: "16 word \<Rightarrow> bool" where
  "isWhiteSpace c =
     (c = 0x09 \<or> c = 0x0A \<or> c = 0x0B \<or> c = 0x0C \<or> c = 0x0D \<or> c = 0x20 \<or> c = 0xA0 \<or>
      c = 0x1680 \<or> (0x2000 \<le> c \<and> c \<le> 0x200A) \<or> c = 0x2028 \<or> c = 0x2029 \<or>
      c = 0x202F \<or> c = 0x205F \<or> c = 0x3000 \<or> c = 0xFEFF)"

definition trim :: "jsstring \<Rightarrow> jsstring" where
  "trim s = rev (dropWhile isWhiteSpace (rev (dropWhile isWhiteSpace s)))"

text \<open>\<^verbatim>\<open>n.toString()\<close> for a whole number that is not negative: its decimal digits.\<close>

fun toString :: "nat \<Rightarrow> jsstring" where
  "toString n =
     (if n < 10 then [of_nat (48 + n)]
      else toString (n div 10) @ [of_nat (48 + n mod 10)])"

declare toString.simps [simp del]

text \<open>\<^verbatim>\<open>xs.join(sep)\<close>.\<close>

fun join :: "'a list \<Rightarrow> 'a list list \<Rightarrow> 'a list" where
  "join sep [] = []"
| "join sep [x] = x"
| "join sep (x # y # ys) = x @ sep @ join sep (y # ys)"

text \<open>The text of the \<^verbatim>\<open>catch\<close> block's message.\<close>

definition apology :: jsstring where
  "apology = js (''I apologize, but I encountered an error while processing your request. '' @
                 ''Please try asking your question again.'')"

text \<open>
  \<^verbatim>\<open>ToString\<close> of a JSON value, as a template literal applies it. An array is its
  elements joined with commas (\<^verbatim>\<open>Array.prototype.join\<close>: a \<^verbatim>\<open>null\<close> element is
  written as nothing). An object is \<^verbatim>\<open>[object Object]\<close>, unless it has an own property
  \<^verbatim>\<open>toString\<close>: that value is not callable, \<^verbatim>\<open>Object.prototype.valueOf\<close> gives no
  primitive, and the conversion throws a TypeError.
\<close>

lemma map_throwing_cong [fundef_cong]:
  "xs = ys \<Longrightarrow> (\<And>x. x \<in> set ys \<Longrightarrow> f x = g x) \<Longrightarrow> map_throwing f xs = map_throwing g ys"
  by (induction ys arbitrary: xs) (auto split: sum.splits)

fun ToString :: "(rat \<Rightarrow> jsstring) \<Rightarrow> json \<Rightarrow> error + jsstring" where
  "ToString num JNull = Inr (js ''null'')"
| "ToString num (JBool b) = Inr (if b then js ''true'' else js ''false'')"
| "ToString num (JNum n) =
     Inr (case n of
            NaN \<Rightarrow> js ''NaN''
          | NegInf \<Rightarrow> js ''-Infinity''
          | Finite r \<Rightarrow> num r
          | PosInf \<Rightarrow> js ''Infinity'')"
| "ToString num (JStr s) = Inr s"
| "ToString num (JArr xs) =
     (case map_throwing (\<lambda>x. if x = JNull then Inr [] else ToString num x) xs of
        Inl e \<Rightarrow> Inl e
      | Inr pieces \<Rightarrow> Inr (join (js '','') pieces))"
| "ToString num (JObj kvs) =
     (if map_of kvs (js ''toString'') = None then Inr (js ''[object Object]'')
      else Inl TypeError)"

text \<open>
  The template literal of the agent's text,
  \<^verbatim>\<open>`${questionTopic}. Here's what I found:\n\n${data.answer}`\<close>: a missing answer is
  written \<^verbatim>\<open>undefined\<close>, any other by \<^verbatim>\<open>ToString\<close>, which can throw.
\<close>

definition agent_text :: "env \<Rightarrow> jsstring \<Rightarrow> json option \<Rightarrow> error + jsstring" where
  "agent_text e questionTopic a =
     (case (case a of None \<Rightarrow> Inr (js ''undefined'') | Some v \<Rightarrow> ToString (numberToString e) v) of
        Inl err \<Rightarrow> Inl err
      | Inr written \<Rightarrow>
          Inr (questionTopic @ js ''. Here'' @ [0x27] @ js ''s what I found:'' @ [0x0A, 0x0A] @
               written))"

text \<open>The state after the \<^verbatim>\<open>catch\<close> block: the apology is appended.\<close>

definition on_error :: "env \<Rightarrow> chat_state \<Rightarrow> chat_state" where
  "on_error e st =
     st\<lparr>messages := messages st @
          [\<lparr>msg_id = toString (now_agent e + 1), msg_type = Agent, msg_text = apology,
            msg_references = None, msg_scores = None\<rparr>]\<rparr>"

text \<open>
  The rest of the \<^verbatim>\<open>try\<close> block once \<open>data\<close> is read, for the question \<open>q\<close>: the
  state after it has run to its end, or the error the template literal throws, which
  comes before any setter is called.
\<close>

definition on_data :: "env \<Rightarrow> jsstring \<Rightarrow> chat_data \<Rightarrow> chat_state \<Rightarrow> error + chat_state" where
  "on_data e q data st =
     (let agentMessageId = toString (now_agent e + 1);
          questionTopic = join (js '' '') (take 3 (split (of_char CHR '' '') (toLowerCase e q)))
      in case agent_text e questionTopic (answer data) of
           Inl err \<Rightarrow> Inl err
         | Inr written \<Rightarrow>
             Inr (st\<lparr>messages := messages st @
                        [\<lparr>msg_id = agentMessageId, msg_type = Agent, msg_text = written,
                          msg_references = references data, msg_scores = scores data\<rparr>],
                      showReferences := (showReferences st)(agentMessageId \<mapsto> False)\<rparr>))"

text \<open>
  \<^verbatim>\<open>handleSubmit\<close>, from the state at the submit to the state after \<^verbatim>\<open>finally\<close>,
  with the bodies of the requests sent to \<^verbatim>\<open>/api/chat\<close> (the question of each).
  A question that is empty after \<^verbatim>\<open>trim\<close> returns before anything is set.
  (\<^verbatim>\<open>e.preventDefault()\<close> only stops the browser's own submission of the form.)
\<close>

definition handleSubmit :: "env \<Rightarrow> chat_state \<Rightarrow> chat_state \<times> jsstring list" where
  "handleSubmit e st =
     (if trim (question st) = [] then (st, [])
      else
        let q = question st;
            userMessage = \<lparr>msg_id = toString (now_user e), msg_type = User, msg_text = q,
                            msg_references = None, msg_scores = None\<rparr>;
            st1 = st\<lparr>messages := messages st @ [userMessage], question := [], loading := True\<rparr>;
            st2 = (case fetch_chat e q of
                     ChatRejected \<Rightarrow> on_error e st1
                   | ChatResponse ok json_body \<Rightarrow>
                       if \<not> ok then on_error e st1
                       else (case json_body of
                               NotJson \<Rightarrow> on_error e st1
                             | NullBody \<Rightarrow> on_error e st1
                             | Data data \<Rightarrow>
                                 (case on_data e q data st1 of
                                    Inl err \<Rightarrow> on_error e st1
                                  | Inr st' \<Rightarrow> st')))
        in (st2\<lparr>loading := False\<rparr>, [q]))"

text \<open>
  The two guarded sections of a message's markup:
  \<^verbatim>\<open>message.type === 'agent' && message.scores && (...)\<close> and
  \<^verbatim>\<open>message.type === 'agent' && message.references && message.references.length > 0 && (...)\<close>.
\<close>

definition rendersScores :: "message \<Rightarrow> bool" where
  "rendersScores m =
     (msg_type m = Agent \<and> (case msg_scores m of None \<Rightarrow> False | Some s \<Rightarrow> truthy s))"

definition rendersReferences :: "message \<Rightarrow> bool" where
  "rendersReferences m =
     (msg_type m = Agent \<and> (case msg_references m of None \<Rightarrow> False | Some rs \<Rightarrow> 0 < length rs))"

text \<open>The comparison \<^verbatim>\<open>a < b\<close> of two numbers: false whenever one is \<^verbatim>\<open>NaN\<close>.\<close>

fun js_lt :: "number \<Rightarrow> number \<Rightarrow> bool" where
  "js_lt NaN y = False"
| "js_lt x NaN = False"
| "js_lt (Finite a) (Finite b) = (a < b)"
| "js_lt PosInf y = False"
| "js_lt x PosInf = True"
| "js_lt x NegInf = False"
| "js_lt NegInf y = True"

text \<open>\<^verbatim>\<open>a > b\<close> is \<^verbatim>\<open>b < a\<close>.\<close>

definition js_gt :: "number \<Rightarrow> number \<Rightarrow> bool" where
  "js_gt a b = js_lt b a"

definition getConfidenceColor :: "number \<Rightarrow> jsstring" where
  "getConfidenceColor score =
     (if js_gt score (Finite 8) then js ''bg-green-100 text-green-800''
      else if js_lt score (Finite 5) then js ''bg-red-100 text-red-800''
      else js ''bg-yellow-100 text-yellow-800'')"

section \<open>Sample data and the scale of the scores\<close>

text \<open>The fixed scale of a score: 0 to 10.\<close>

definition in_scale :: "number \<Rightarrow> bool" where
  "in_scale n = (case n of Finite r \<Rightarrow> 0 \<le> r \<and> r \<le> 10 | _ \<Rightarrow> False)"

text \<open>A request \<^verbatim>\<open>{ question: "What is your return policy?" }\<close>.\<close>

definition question_body :: json where
  "question_body = JObj [(js ''question'', JStr (js ''What is your return policy?''))]"

text \<open>Replies of the backend: one with no \<^verbatim>\<open>evaluation\<close>, one that names a URL twice,
  one with a score of 15, one complete and within the scale.\<close>

definition reply_without_evaluation :: json where
  "reply_without_evaluation =
     JObj [(js ''answer'', JStr (js ''Returns accepted within 30 days.'')),
           (js ''references'', JArr [JStr (js ''/faq/returns'')])]"

definition reply_repeated_reference :: json where
  "reply_repeated_reference =
     JObj [(js ''answer'', JStr (js ''Returns accepted within 30 days.'')),
           (js ''references'', JArr [JStr (js ''/faq/returns''), JStr (js ''/faq/returns'')])]"

definition reply_score_15 :: json where
  "reply_score_15 =
     JObj [(js ''answer'', JStr (js ''Returns accepted within 30 days.'')),
           (js ''references'', JArr [JStr (js ''/faq/returns'')]),
           (js ''evaluation'',
            JObj [(js ''llm_evaluation'',
                   JObj [(js ''scores'',
                          JObj [(js ''factual_accuracy'', JNum (Finite 15)),
                                (js ''relevance'', JNum (Finite 9)),
                                (js ''completeness'', JNum (Finite 8)),
                                (js ''context_usage'', JNum (Finite 7))])])])]"

definition reply_full :: json where
  "reply_full =
     JObj [(js ''answer'', JStr (js ''Returns accepted within 30 days.'')),
           (js ''references'', JArr [JStr (js ''/faq/returns'')]),
           (js ''evaluation'',
            JObj [(js ''llm_evaluation'',
                   JObj [(js ''scores'',
                          JObj [(js ''factual_accuracy'', JNum (Finite 9)),
                                (js ''relevance'', JNum (Finite 9)),
                                (js ''completeness'', JNum (Finite 8)),
                                (js ''context_usage'', JNum (Finite 7))])])])]"

text \<open>A reply with three references: one ending in a name, one ending in \<^verbatim>\<open>/\<close>, one
  with no \<^verbatim>\<open>/\<close>.\<close>

definition reply_three_references :: json where
  "reply_three_references =
     JObj [(js ''answer'', JStr (js ''Returns accepted within 30 days.'')),
           (js ''references'',
            JArr [JStr (js ''https://voy.io/faq/returns''),
                  JStr (js ''https://voy.io/faq/''),
                  JStr (js ''returns'')])]"

section \<open>Lemmas on the endpoint\<close>

lemma split_not_Nil: "split sep s \<noteq> []"
  by (subst split.simps) (simp split: list.split)

lemma takeWhile_stops: "\<not> P y \<Longrightarrow> takeWhile P (xs @ y # ys) = takeWhile P xs"
  by (induction xs) auto

lemma last_split: "last (split sep s) = rev (takeWhile (\<lambda>c. c \<noteq> sep) (rev s))"
proof (induction sep s rule: split.induct)
  case (1 sep s)
  show ?case
  proof (cases "dropWhile (\<lambda>c. c \<noteq> sep) s")
    case Nil
    then have "\<forall>c\<in>set s. c \<noteq> sep"
      by (simp add: dropWhile_eq_Nil_conv)
    then have tw: "takeWhile (\<lambda>c. c \<noteq> sep) (rev s) = rev s"
      by (simp add: takeWhile_eq_all_conv)
    have sp: "split sep s = [s]"
      by (subst split.simps) (simp only: Nil list.case)
    show ?thesis
      unfolding sp tw by simp
  next
    case (Cons x rest)
    then have x: "x = sep"
      using hd_dropWhile [of "\<lambda>c. c \<noteq> sep" s] by fastforce
    have s: "s = takeWhile (\<lambda>c. c \<noteq> sep) s @ sep # rest"
      using takeWhile_dropWhile_id [of "\<lambda>c. c \<noteq> sep" s] Cons x by simp
    have "rev s = rev rest @ sep # rev (takeWhile (\<lambda>c. c \<noteq> sep) s)"
      by (subst s) simp
    then have "takeWhile (\<lambda>c. c \<noteq> sep) (rev s) = takeWhile (\<lambda>c. c \<noteq> sep) (rev rest)"
      by (simp add: takeWhile_stops)
    moreover have "split sep s = takeWhile (\<lambda>c. c \<noteq> sep) s # split sep rest"
      by (subst split.simps) (simp only: Cons list.case)
    then have "last (split sep s) = last (split sep rest)"
      by (simp add: split_not_Nil)
    ultimately show ?thesis
      using "1.IH" [OF Cons] by simp
  qed
qed

lemma pop_split: "pop (split sep s) = Some (rev (takeWhile (\<lambda>c. c \<noteq> sep) (rev s)))"
  by (simp add: pop_def split_not_Nil last_split)

lemma last_piece_after:
  assumes "s = pre @ sep # t" and "sep \<notin> set t"
  shows "rev (takeWhile (\<lambda>c. c \<noteq> sep) (rev s)) = t"
proof -
  have "rev s = rev t @ sep # rev pre"
    by (simp add: assms(1))
  then have "takeWhile (\<lambda>c. c \<noteq> sep) (rev s) = takeWhile (\<lambda>c. c \<noteq> sep) (rev t)"
    by (simp add: takeWhile_stops)
  also have "\<dots> = rev t"
    using assms(2) by (induction t rule: rev_induct) auto
  finally show ?thesis
    by simp
qed

lemma last_piece_whole:
  assumes "sep \<notin> set s"
  shows "rev (takeWhile (\<lambda>c. c \<noteq> sep) (rev s)) = s"
proof -
  have tw: "takeWhile (\<lambda>c. c \<noteq> sep) (rev s) = rev s"
    using assms by (induction s rule: rev_induct) auto
  show ?thesis
    unfolding tw by simp
qed

text \<open>A URL with no \<^verbatim>\<open>/\<close> at all is its own title.\<close>

lemma page_title_of_no_slash:
  assumes "of_char CHR ''/'' \<notin> set url"
  shows "page_title_of url = url"
  unfolding page_title_of_def pop_split last_piece_whole [OF assms] by simp

lemma page_title_of_after_slash:
  assumes "url = pre @ of_char CHR ''/'' # t" and "of_char CHR ''/'' \<notin> set t"
  shows "page_title_of url = (if t = [] then url else t)"
  unfolding page_title_of_def pop_split last_piece_after [OF assms] by simp

lemma map_throwing_strings:
  "map_throwing to_reference (map JStr urls) =
     Inr (map (\<lambda>u. JObj [(js ''page_url'', JStr u), (js ''page_title'', JStr (page_title_of u))]) urls)"
  by (induction urls) simp_all

lemma to_reference_Inr: "to_reference x = Inr r \<Longrightarrow> \<exists>u. x = JStr u"
  by (cases x) simp_all

lemma map_throwing_Inr: "map_throwing to_reference xs = Inr rs \<Longrightarrow> \<exists>urls. xs = map JStr urls"
proof (induction xs arbitrary: rs)
  case Nil
  then show ?case by simp
next
  case (Cons x xs)
  from Cons.prems obtain r rs' where r: "to_reference x = Inr r"
    and rs': "map_throwing to_reference xs = Inr rs'"
    by (auto split: sum.splits)
  from to_reference_Inr [OF r] obtain u where "x = JStr u" ..
  moreover from Cons.IH [OF rs'] obtain urls where "xs = map JStr urls" ..
  ultimately have "x # xs = map JStr (u # urls)"
    by simp
  then show ?case ..
qed

lemma map_JStr_eq: "map JStr xs = map JStr ys \<longleftrightarrow> xs = ys"
  by (simp add: inj_map_eq_map inj_def)

lemma map_references_Inr:
  "map_references refs = Inr rs \<longleftrightarrow>
     (\<exists>urls. refs = Some (JArr (map JStr urls)) \<and>
        rs = map (\<lambda>u. JObj [(js ''page_url'', JStr u), (js ''page_title'', JStr (page_title_of u))]) urls)"
proof
  assume a: "map_references refs = Inr rs"
  then obtain xs where refs: "refs = Some (JArr xs)" and m: "map_throwing to_reference xs = Inr rs"
    by (auto simp: map_references_def split: option.splits json.splits)
  from map_throwing_Inr [OF m] obtain urls where xs: "xs = map JStr urls" ..
  with m have "rs = map (\<lambda>u. JObj [(js ''page_url'', JStr u), (js ''page_title'', JStr (page_title_of u))]) urls"
    by (simp add: map_throwing_strings)
  with refs xs show "\<exists>urls. refs = Some (JArr (map JStr urls)) \<and>
        rs = map (\<lambda>u. JObj [(js ''page_url'', JStr u), (js ''page_title'', JStr (page_title_of u))]) urls"
    by blast
next
  assume "\<exists>urls. refs = Some (JArr (map JStr urls)) \<and>
        rs = map (\<lambda>u. JObj [(js ''page_url'', JStr u), (js ''page_title'', JStr (page_title_of u))]) urls"
  then show "map_references refs = Inr rs"
    by (auto simp: map_references_def map_throwing_strings)
qed

text \<open>When the \<^verbatim>\<open>try\<close> block reaches its \<^verbatim>\<open>return\<close>, and with which object.\<close>

lemma transform_Inr:
  "transform data = Inr v \<longleftrightarrow>
     data \<noteq> JNull \<and>
     (\<exists>urls. own_property data (js ''references'') = Some (JArr (map JStr urls)) \<and>
        v = JObj (field (js ''answer'') (own_property data (js ''answer'')) @
                  [(js ''references'',
                    JArr (map (\<lambda>u. JObj [(js ''page_url'', JStr u),
                                           (js ''page_title'', JStr (page_title_of u))]) urls)),
                   (js ''scores'', or_else (backend_scores data) default_scores)]))"
proof (cases "data = JNull")
  case True
  then show ?thesis by (simp add: transform_def get_member_def)
next
  case False
  show ?thesis
  proof (cases "map_references (own_property data (js ''references''))")
    case (Inl e)
    then have "\<not> (\<exists>rs. map_references (own_property data (js ''references'')) = Inr rs)"
      by simp
    then have "\<not> (\<exists>urls. own_property data (js ''references'') = Some (JArr (map JStr urls)))"
      unfolding map_references_Inr by blast
    with Inl False show ?thesis
      by (auto simp: transform_def get_member_def)
  next
    case (Inr rs)
    then obtain urls where u: "own_property data (js ''references'') = Some (JArr (map JStr urls))"
      and rs: "rs = map (\<lambda>u. JObj [(js ''page_url'', JStr u), (js ''page_title'', JStr (page_title_of u))]) urls"
      unfolding map_references_Inr by blast
    from False Inr u rs show ?thesis
      by (auto simp: transform_def get_member_def map_JStr_eq)
  qed
qed

lemma try_POST_Inr:
  "try_POST fetch request_json = Inr v \<longleftrightarrow>
     (\<exists>req sent data. request_json = Some req \<and> backend_request req = Inr sent \<and>
        fetch sent = Response True (Some data) \<and> transform data = Inr v)"
  by (auto simp: try_POST_def split: option.splits sum.splits backend_result.splits)

lemma to_wire_field:
  "map (map_prod id to_wire) (field k a) = field k (map_option to_wire a)"
  by (cases a) (simp_all add: field_def)

lemma POST_success:
  assumes "request_json = Some req" and "backend_request req = Inr sent"
    and "fetch sent = Response True (Some data)" and "data \<noteq> JNull"
    and "own_property data (js ''references'') = Some (JArr (map JStr urls))"
  shows "POST fetch request_json =
           \<lparr>status = 200,
            body = JObj (field (js ''answer'') (map_option to_wire (own_property data (js ''answer''))) @
                     [(js ''references'',
                       JArr (map (\<lambda>u. JObj [(js ''page_url'', JStr u),
                                              (js ''page_title'', JStr (page_title_of u))]) urls)),
                      (js ''scores'', to_wire (or_else (backend_scores data) default_scores))])\<rparr>"
proof -
  let ?v = "JObj (field (js ''answer'') (own_property data (js ''answer'')) @
                  [(js ''references'',
                    JArr (map (\<lambda>u. JObj [(js ''page_url'', JStr u),
                                           (js ''page_title'', JStr (page_title_of u))]) urls)),
                   (js ''scores'', or_else (backend_scores data) default_scores)])"
  have "transform data = Inr ?v"
    unfolding transform_Inr using assms(4,5) by blast
  then have "try_POST fetch request_json = Inr ?v"
    unfolding try_POST_Inr using assms(1-3) by blast
  then show ?thesis
    by (simp add: POST_def NextResponse_json_def to_wire_field comp_def)
qed

lemma POST_failure:
  "try_POST fetch request_json = Inl e \<Longrightarrow>
     POST fetch request_json =
       \<lparr>status = 500, body = JObj [(js ''error'', JStr (js ''Failed to process request''))]\<rparr>"
  by (simp add: POST_def NextResponse_json_def error_payload_def)

text \<open>Reading the properties of the endpoint's body.\<close>

lemma body_references:
  "own_property (JObj (field (js ''answer'') a @ [(js ''references'', r), (js ''scores'', s)]))
     (js ''references'') = Some r"
  by (cases a) (simp_all add: own_property_def field_def js_def)

lemma body_scores:
  "own_property (JObj (field (js ''answer'') a @ [(js ''references'', r), (js ''scores'', s)]))
     (js ''scores'') = Some s"
  by (cases a) (simp_all add: own_property_def field_def js_def)

lemma body_answer:
  "own_property (JObj (field (js ''answer'') a @ [(js ''references'', r), (js ''scores'', s)]))
     (js ''answer'') = a"
  by (cases a) (simp_all add: own_property_def field_def js_def)

lemma body_evaluation:
  "own_property (JObj (field (js ''answer'') a @ [(js ''references'', r), (js ''scores'', s)]))
     (js ''evaluation'') = None"
  by (cases a) (simp_all add: own_property_def field_def js_def)

lemma own_property_to_wire:
  "own_property (to_wire v) k = map_option to_wire (own_property v k)"
proof (cases v)
  case (JObj kvs)
  have "map_of (map (map_prod id to_wire) kvs) k = map_option to_wire (map_of kvs k)"
    by (induction kvs) auto
  with JObj show ?thesis
    by (simp add: own_property_def)
next
  case (JNum n)
  then show ?thesis
    by (cases n) (simp_all add: own_property_def)
qed (simp_all add: own_property_def)

lemma to_wire_eq_JNum: "to_wire v = JNum n \<longleftrightarrow> (\<exists>r. n = Finite r \<and> v = JNum (Finite r))"
proof (cases v)
  case (JNum m)
  then show ?thesis
    by (cases m) auto
qed simp_all

lemma error_payload_has_no_references:
  "own_property (to_wire error_payload) (js ''references'') = None"
  by (simp add: error_payload_def own_property_def js_def)

lemma to_wire_default_scores: "to_wire default_scores = default_scores"
  by (simp add: default_scores_def)

lemma backend_request_question_body: "backend_request question_body = Inr question_body"
  by (simp add: backend_request_def get_member_def own_property_def field_def
      question_body_def js_def)

text \<open>The definitions a concrete call of the endpoint unfolds.\<close>

lemmas eval_defs = POST_def try_POST_def backend_request_def get_member_def own_property_def
  field_def transform_def map_references_def page_title_of_def pop_def split.simps
  backend_scores_def optional_member_def or_else_def default_scores_def NextResponse_json_def
  error_payload_def

section \<open>Lemmas on the page\<close>

lemma all_dropWhile: "(\<forall>x\<in>set (dropWhile P s). P x) \<longleftrightarrow> (\<forall>x\<in>set s. P x)"
proof
  assume a: "\<forall>x\<in>set (dropWhile P s). P x"
  have "dropWhile P s = []"
  proof (rule ccontr)
    assume n: "dropWhile P s \<noteq> []"
    then have "\<not> P (hd (dropWhile P s))"
      by (rule hd_dropWhile)
    moreover from n have "hd (dropWhile P s) \<in> set (dropWhile P s)"
      by simp
    ultimately show False
      using a by blast
  qed
  then show "\<forall>x\<in>set s. P x"
    by (simp add: dropWhile_eq_Nil_conv)
next
  assume "\<forall>x\<in>set s. P x"
  then show "\<forall>x\<in>set (dropWhile P s). P x"
    using set_dropWhileD by fastforce
qed

lemma trim_empty_iff: "trim s = [] \<longleftrightarrow> (\<forall>c\<in>set s. isWhiteSpace c)"
  by (simp add: trim_def dropWhile_eq_Nil_conv all_dropWhile)

text \<open>A question that is not blank is sent.\<close>

lemma nonblank_question_is_sent:
  assumes "\<not> (\<forall>c\<in>set (question st). isWhiteSpace c)"
  shows "snd (handleSubmit e st) = [question st]"
  using assms by (simp add: handleSubmit_def trim_empty_iff Let_def)

text \<open>What the template literal writes for some answers.\<close>

lemma ToString_examples:
  "ToString num (JArr [JNum (Finite 1), JNull, JArr [JStr (js ''a''), JBool True]]) =
     Inr (num 1 @ js '',,a,true'')"
  "ToString num (JObj [(js ''k'', JNull)]) = Inr (js ''[object Object]'')"
  "ToString num (JArr [JObj [(js ''toString'', JNull)]]) = Inl TypeError"
  by (simp_all add: js_def)

lemma agent_text_cases:
  "agent_text e topic None =
     Inr (topic @ js ''. Here'' @ [0x27] @ js ''s what I found:'' @ [0x0A, 0x0A] @ js ''undefined'')"
  "agent_text e topic (Some JNull) =
     Inr (topic @ js ''. Here'' @ [0x27] @ js ''s what I found:'' @ [0x0A, 0x0A] @ js ''null'')"
  "agent_text e topic (Some (JStr s)) =
     Inr (topic @ js ''. Here'' @ [0x27] @ js ''s what I found:'' @ [0x0A, 0x0A] @ s)"
  by (simp_all add: agent_text_def)

section \<open>The claims\<close>

subsection \<open>C1: the scores when the backend gives none\<close>

text \<open>
  C1 as stated asks for five score fields, \<^verbatim>\<open>semantic_similarity\<close> among them. For a
  reply with no \<^verbatim>\<open>evaluation\<close> the endpoint's \<^verbatim>\<open>scores\<close> object has four fields,
  and \<^verbatim>\<open>semantic_similarity\<close> is not one of them.
\<close>

theorem missing_scores_lack_semantic_similarity:
  "own_property
     (body (POST (\<lambda>_. Response True (Some reply_without_evaluation)) (Some question_body)))
     (js ''scores'') =
     Some (JObj [(js ''factual_accuracy'', JNum (Finite 0)),
                 (js ''relevance'', JNum (Finite 0)),
                 (js ''completeness'', JNum (Finite 0)),
                 (js ''context_usage'', JNum (Finite 0))]) \<and>
   own_property (JObj [(js ''factual_accuracy'', JNum (Finite 0)),
                       (js ''relevance'', JNum (Finite 0)),
                       (js ''completeness'', JNum (Finite 0)),
                       (js ''context_usage'', JNum (Finite 0))]) (js ''semantic_similarity'') = None"
  by (simp add: eval_defs question_body_def reply_without_evaluation_def js_def)

text \<open>
  C1, amended. When the backend's reply can be transformed (it is not \<^verbatim>\<open>null\<close> and its
  \<^verbatim>\<open>references\<close> is an array of strings) and has no \<^verbatim>\<open>evaluation\<close>, or no
  \<^verbatim>\<open>llm_evaluation\<close> in it, or no \<^verbatim>\<open>scores\<close> in that, the response has status 200
  and its \<^verbatim>\<open>scores\<close> object is exactly the four fields \<^verbatim>\<open>factual_accuracy\<close>,
  \<^verbatim>\<open>relevance\<close>, \<^verbatim>\<open>completeness\<close> and \<^verbatim>\<open>context_usage\<close>, each 0.
\<close>

theorem missing_scores_default_to_zero:
  assumes "request_json = Some req" and "backend_request req = Inr sent"
    and "fetch sent = Response True (Some data)" and "data \<noteq> JNull"
    and "own_property data (js ''references'') = Some (JArr (map JStr urls))"
    and "own_property data (js ''evaluation'') = None \<or>
         (\<exists>ev. own_property data (js ''evaluation'') = Some ev \<and>
               own_property ev (js ''llm_evaluation'') = None) \<or>
         (\<exists>ev llm. own_property data (js ''evaluation'') = Some ev \<and>
               own_property ev (js ''llm_evaluation'') = Some llm \<and>
               own_property llm (js ''scores'') = None)"
  shows "status (POST fetch request_json) = 200 \<and>
         own_property (body (POST fetch request_json)) (js ''scores'') =
           Some (JObj [(js ''factual_accuracy'', JNum (Finite 0)),
                       (js ''relevance'', JNum (Finite 0)),
                       (js ''completeness'', JNum (Finite 0)),
                       (js ''context_usage'', JNum (Finite 0))])"
proof -
  have none: "own_property JNull k = None" for k
    by (simp add: own_property_def)
  from assms(6) have "backend_scores data = None"
    by (auto simp: backend_scores_def optional_member_def none)
  then have "to_wire (or_else (backend_scores data) default_scores) = default_scores"
    by (simp add: or_else_def to_wire_default_scores)
  then show ?thesis
    unfolding POST_success [where fetch = fetch, OF assms(1-5)]
    by (simp add: body_scores default_scores_def)
qed

theorem missing_scores_default_to_zero_witness:
  "(status (POST (\<lambda>_. Response True (Some reply_without_evaluation)) (Some question_body)) = 200 \<and>
    own_property
      (body (POST (\<lambda>_. Response True (Some reply_without_evaluation)) (Some question_body)))
      (js ''scores'') =
      Some (JObj [(js ''factual_accuracy'', JNum (Finite 0)),
                  (js ''relevance'', JNum (Finite 0)),
                  (js ''completeness'', JNum (Finite 0)),
                  (js ''context_usage'', JNum (Finite 0))])) \<and>
   (status (POST (\<lambda>_. Response True
        (Some (JObj [(js ''references'', JArr []), (js ''evaluation'', JObj [])])))
      (Some question_body)) = 200 \<and>
    own_property
      (body (POST (\<lambda>_. Response True
          (Some (JObj [(js ''references'', JArr []), (js ''evaluation'', JObj [])])))
        (Some question_body)))
      (js ''scores'') =
      Some (JObj [(js ''factual_accuracy'', JNum (Finite 0)),
                  (js ''relevance'', JNum (Finite 0)),
                  (js ''completeness'', JNum (Finite 0)),
                  (js ''context_usage'', JNum (Finite 0))])) \<and>
   (status (POST (\<lambda>_. Response True
        (Some (JObj [(js ''references'', JArr []),
                     (js ''evaluation'', JObj [(js ''llm_evaluation'', JObj [])])])))
      (Some question_body)) = 200 \<and>
    own_property
      (body (POST (\<lambda>_. Response True
          (Some (JObj [(js ''references'', JArr []),
                       (js ''evaluation'', JObj [(js ''llm_evaluation'', JObj [])])])))
        (Some question_body)))
      (js ''scores'') =
      Some (JObj [(js ''factual_accuracy'', JNum (Finite 0)),
                  (js ''relevance'', JNum (Finite 0)),
                  (js ''completeness'', JNum (Finite 0)),
                  (js ''context_usage'', JNum (Finite 0))]))"
proof -
  let ?no_llm = "JObj [(js ''references'', JArr []), (js ''evaluation'', JObj [])]"
  let ?no_scores = "JObj [(js ''references'', JArr []),
                          (js ''evaluation'', JObj [(js ''llm_evaluation'', JObj [])])]"
  have b: "reply_without_evaluation \<noteq> JNull"
    by (simp add: reply_without_evaluation_def)
  have c: "own_property reply_without_evaluation (js ''references'') =
             Some (JArr (map JStr [js ''/faq/returns'']))"
    by (simp add: reply_without_evaluation_def own_property_def js_def)
  have d: "own_property reply_without_evaluation (js ''evaluation'') = None"
    by (simp add: reply_without_evaluation_def own_property_def js_def)
  have c2: "own_property ?no_llm (js ''references'') = Some (JArr (map JStr []))"
    by (simp add: own_property_def js_def)
  have d2: "\<exists>ev. own_property ?no_llm (js ''evaluation'') = Some ev \<and>
               own_property ev (js ''llm_evaluation'') = None"
    by (simp add: own_property_def js_def)
  have c3: "own_property ?no_scores (js ''references'') = Some (JArr (map JStr []))"
    by (simp add: own_property_def js_def)
  have d3: "\<exists>ev llm. own_property ?no_scores (js ''evaluation'') = Some ev \<and>
               own_property ev (js ''llm_evaluation'') = Some llm \<and>
               own_property llm (js ''scores'') = None"
    by (simp add: own_property_def js_def)
  note 1 = missing_scores_default_to_zero
        [where fetch = "\<lambda>_. Response True (Some reply_without_evaluation)",
          OF refl backend_request_question_body refl b c disjI1 [OF d]]
  note 2 = missing_scores_default_to_zero
        [where fetch = "\<lambda>_. Response True (Some ?no_llm)",
          OF refl backend_request_question_body refl _ c2 disjI2 [OF disjI1 [OF d2]]]
  note 3 = missing_scores_default_to_zero
        [where fetch = "\<lambda>_. Response True (Some ?no_scores)",
          OF refl backend_request_question_body refl _ c3 disjI2 [OF disjI2 [OF d3]]]
  from 1 2 3 show ?thesis
    by simp
qed

subsection \<open>C2: the shape of the response\<close>

text \<open>
  C2 as stated asks for \<^verbatim>\<open>{answer, references: [url...], evaluation: {scores...}}\<close>. The
  response to a complete reply has no \<^verbatim>\<open>evaluation\<close> property: the scores stand under
  \<^verbatim>\<open>scores\<close>, and each reference is an object, not a URL.
\<close>

theorem response_has_no_evaluation_field:
  "POST (\<lambda>_. Response True (Some reply_full)) (Some question_body) =
     \<lparr>status = 200,
      body = JObj [(js ''answer'', JStr (js ''Returns accepted within 30 days.'')),
                   (js ''references'',
                    JArr [JObj [(js ''page_url'', JStr (js ''/faq/returns'')),
                                (js ''page_title'', JStr (js ''returns''))]]),
                   (js ''scores'',
                    JObj [(js ''factual_accuracy'', JNum (Finite 9)),
                          (js ''relevance'', JNum (Finite 9)),
                          (js ''completeness'', JNum (Finite 8)),
                          (js ''context_usage'', JNum (Finite 7))])]\<rparr> \<and>
   own_property (body (POST (\<lambda>_. Response True (Some reply_full)) (Some question_body)))
     (js ''evaluation'') = None"
  by (simp add: eval_defs question_body_def reply_full_def js_def)

text \<open>
  C2, amended. For a request whose \<^verbatim>\<open>question\<close> is a string: when the backend answers
  with an ok response whose body is not \<^verbatim>\<open>null\<close> and has an array of strings as
  \<^verbatim>\<open>references\<close>, the response has status 200 and the body
  \<^verbatim>\<open>{answer, references: [{page_url, page_title}...], scores}\<close> (\<^verbatim>\<open>answer\<close> as the
  backend gave it, left out when the backend gave none); in every other case the response
  has status 500 and the body \<^verbatim>\<open>{error: 'Failed to process request'}\<close>.
\<close>

theorem chat_response_shape:
  assumes "own_property req (js ''question'') = Some (JStr q)"
  shows "(\<forall>data urls.
            fetch (JObj [(js ''question'', JStr q)]) = Response True (Some data) \<and>
            data \<noteq> JNull \<and>
            own_property data (js ''references'') = Some (JArr (map JStr urls)) \<longrightarrow>
            POST fetch (Some req) =
              \<lparr>status = 200,
               body = JObj (field (js ''answer'')
                              (map_option to_wire (own_property data (js ''answer''))) @
                            [(js ''references'',
                              JArr (map (\<lambda>u. JObj [(js ''page_url'', JStr u),
                                                     (js ''page_title'', JStr (page_title_of u))])
                                     urls)),
                             (js ''scores'',
                              to_wire (or_else (backend_scores data) default_scores))])\<rparr>) \<and>
         (\<not> (\<exists>data urls.
                fetch (JObj [(js ''question'', JStr q)]) = Response True (Some data) \<and>
                data \<noteq> JNull \<and>
                own_property data (js ''references'') = Some (JArr (map JStr urls))) \<longrightarrow>
            POST fetch (Some req) =
              \<lparr>status = 500,
               body = JObj [(js ''error'', JStr (js ''Failed to process request''))]\<rparr>)"
proof -
  from assms have "req \<noteq> JNull"
    by (auto simp: own_property_def)
  with assms have sent: "backend_request req = Inr (JObj [(js ''question'', JStr q)])"
    by (simp add: backend_request_def get_member_def field_def)
  show ?thesis
  proof (intro conjI allI impI)
    fix data urls
    assume "fetch (JObj [(js ''question'', JStr q)]) = Response True (Some data) \<and>
            data \<noteq> JNull \<and>
            own_property data (js ''references'') = Some (JArr (map JStr urls))"
    then show "POST fetch (Some req) =
              \<lparr>status = 200,
               body = JObj (field (js ''answer'')
                              (map_option to_wire (own_property data (js ''answer''))) @
                            [(js ''references'',
                              JArr (map (\<lambda>u. JObj [(js ''page_url'', JStr u),
                                                     (js ''page_title'', JStr (page_title_of u))])
                                     urls)),
                             (js ''scores'',
                              to_wire (or_else (backend_scores data) default_scores))])\<rparr>"
      using POST_success [where fetch = fetch, OF refl sent] by blast
  next
    assume no: "\<not> (\<exists>data urls.
                fetch (JObj [(js ''question'', JStr q)]) = Response True (Some data) \<and>
                data \<noteq> JNull \<and>
                own_property data (js ''references'') = Some (JArr (map JStr urls)))"
    have "\<not> (\<exists>v. try_POST fetch (Some req) = Inr v)"
    proof
      assume "\<exists>v. try_POST fetch (Some req) = Inr v"
      then obtain v sent' data where "backend_request req = Inr sent'"
        and "fetch sent' = Response True (Some data)" and "transform data = Inr v"
        unfolding try_POST_Inr by blast
      with sent no show False
        unfolding transform_Inr by auto
    qed
    then obtain e where "try_POST fetch (Some req) = Inl e"
      by (cases "try_POST fetch (Some req)") auto
    then show "POST fetch (Some req) =
              \<lparr>status = 500,
               body = JObj [(js ''error'', JStr (js ''Failed to process request''))]\<rparr>"
      by (rule POST_failure)
  qed
qed

theorem chat_response_shape_witness:
  "POST (\<lambda>_. Response True (Some reply_full)) (Some question_body) =
     \<lparr>status = 200,
      body = JObj [(js ''answer'', JStr (js ''Returns accepted within 30 days.'')),
                   (js ''references'',
                    JArr [JObj [(js ''page_url'', JStr (js ''/faq/returns'')),
                                (js ''page_title'', JStr (js ''returns''))]]),
                   (js ''scores'',
                    JObj [(js ''factual_accuracy'', JNum (Finite 9)),
                          (js ''relevance'', JNum (Finite 9)),
                          (js ''completeness'', JNum (Finite 8)),
                          (js ''context_usage'', JNum (Finite 7))])]\<rparr> \<and>
   POST (\<lambda>_. Rejected) (Some question_body) =
     \<lparr>status = 500, body = JObj [(js ''error'', JStr (js ''Failed to process request''))]\<rparr>"
proof -
  have q: "own_property question_body (js ''question'') =
             Some (JStr (js ''What is your return policy?''))"
    by (simp add: question_body_def own_property_def)
  have b: "reply_full \<noteq> JNull"
    by (simp add: reply_full_def)
  have c: "own_property reply_full (js ''references'') = Some (JArr (map JStr [js ''/faq/returns'']))"
    by (simp add: reply_full_def own_property_def js_def)
  have d: "field (js ''answer'') (map_option to_wire (own_property reply_full (js ''answer''))) =
             [(js ''answer'', JStr (js ''Returns accepted within 30 days.''))]"
    by (simp add: reply_full_def own_property_def field_def)
  have e: "to_wire (or_else (backend_scores reply_full) default_scores) =
             JObj [(js ''factual_accuracy'', JNum (Finite 9)),
                   (js ''relevance'', JNum (Finite 9)),
                   (js ''completeness'', JNum (Finite 8)),
                   (js ''context_usage'', JNum (Finite 7))]"
    by (simp add: reply_full_def backend_scores_def optional_member_def own_property_def
        or_else_def js_def)
  have f: "page_title_of (js ''/faq/returns'') = js ''returns''"
    by (simp add: page_title_of_def pop_def split.simps js_def)
  from chat_response_shape [where fetch = "\<lambda>_. Response True (Some reply_full)", OF q] b c
  have "POST (\<lambda>_. Response True (Some reply_full)) (Some question_body) =
     \<lparr>status = 200,
      body = JObj (field (js ''answer'') (map_option to_wire (own_property reply_full (js ''answer''))) @
                   [(js ''references'',
                     JArr (map (\<lambda>u. JObj [(js ''page_url'', JStr u),
                                            (js ''page_title'', JStr (page_title_of u))])
                            [js ''/faq/returns''])),
                    (js ''scores'', to_wire (or_else (backend_scores reply_full) default_scores))])\<rparr>"
    by blast
  then have 1: "POST (\<lambda>_. Response True (Some reply_full)) (Some question_body) =
     \<lparr>status = 200,
      body = JObj [(js ''answer'', JStr (js ''Returns accepted within 30 days.'')),
                   (js ''references'',
                    JArr [JObj [(js ''page_url'', JStr (js ''/faq/returns'')),
                                (js ''page_title'', JStr (js ''returns''))]]),
                   (js ''scores'',
                    JObj [(js ''factual_accuracy'', JNum (Finite 9)),
                          (js ''relevance'', JNum (Finite 9)),
                          (js ''completeness'', JNum (Finite 8)),
                          (js ''context_usage'', JNum (Finite 7))])]\<rparr>"
    unfolding d e by (simp add: f)
  from chat_response_shape [where fetch = "\<lambda>_. Rejected", OF q]
  have 2: "POST (\<lambda>_. Rejected) (Some question_body) =
     \<lparr>status = 500, body = JObj [(js ''error'', JStr (js ''Failed to process request''))]\<rparr>"
    by simp
  from 1 2 show ?thesis ..
qed

subsection \<open>C3: the response when a stage fails\<close>

text \<open>
  C3 as stated asks for an apology message and empty references in the failure's payload.
  The payload of a failed request is the \<^verbatim>\<open>error\<close> property alone: it has no
  \<^verbatim>\<open>answer\<close> and no \<^verbatim>\<open>references\<close>.
\<close>

theorem error_response_is_bare:
  "POST (\<lambda>_. Rejected) None =
     \<lparr>status = 500, body = JObj [(js ''error'', JStr (js ''Failed to process request''))]\<rparr> \<and>
   own_property (body (POST (\<lambda>_. Rejected) None)) (js ''answer'') = None \<and>
   own_property (body (POST (\<lambda>_. Rejected) None)) (js ''references'') = None"
  by (simp add: eval_defs js_def)

text \<open>
  C3, amended. When the request's body is not JSON, or the call of the backend rejects, or
  the backend's response is not ok, the response has status 500 and its body is exactly
  \<^verbatim>\<open>{error: 'Failed to process request'}\<close>: no message, no references, no scores.
\<close>

theorem stage_failure_gives_error_payload:
  assumes "request_json = None \<or>
           (\<exists>req sent. request_json = Some req \<and> backend_request req = Inr sent \<and>
              (fetch sent = Rejected \<or> (\<exists>b. fetch sent = Response False b)))"
  shows "POST fetch request_json =
           \<lparr>status = 500, body = JObj [(js ''error'', JStr (js ''Failed to process request''))]\<rparr>"
proof -
  from assms have "\<exists>e. try_POST fetch request_json = Inl e"
    by (auto simp: try_POST_def)
  then show ?thesis
    using POST_failure by blast
qed

theorem stage_failure_gives_error_payload_witness:
  "POST (\<lambda>_. Rejected) None =
     \<lparr>status = 500, body = JObj [(js ''error'', JStr (js ''Failed to process request''))]\<rparr> \<and>
   POST (\<lambda>_. Rejected) (Some question_body) =
     \<lparr>status = 500, body = JObj [(js ''error'', JStr (js ''Failed to process request''))]\<rparr> \<and>
   POST (\<lambda>_. Response False None) (Some question_body) =
     \<lparr>status = 500, body = JObj [(js ''error'', JStr (js ''Failed to process request''))]\<rparr>"
proof -
  have 1: "POST (\<lambda>_. Rejected) None =
     \<lparr>status = 500, body = JObj [(js ''error'', JStr (js ''Failed to process request''))]\<rparr>"
    by (rule stage_failure_gives_error_payload) simp
  have 2: "POST (\<lambda>_. Rejected) (Some question_body) =
     \<lparr>status = 500, body = JObj [(js ''error'', JStr (js ''Failed to process request''))]\<rparr>"
    by (rule stage_failure_gives_error_payload) (simp add: backend_request_question_body)
  have 3: "POST (\<lambda>_. Response False None) (Some question_body) =
     \<lparr>status = 500, body = JObj [(js ''error'', JStr (js ''Failed to process request''))]\<rparr>"
    by (rule stage_failure_gives_error_payload) (simp add: backend_request_question_body)
  from 1 2 3 show ?thesis
    by blast
qed

subsection \<open>C4: no reference is made up\<close>

text \<open>
  C4. Every entry of the \<^verbatim>\<open>references\<close> of a response of the endpoint has a
  \<^verbatim>\<open>page_url\<close> that is an element of the \<^verbatim>\<open>references\<close> of the reply the backend
  gave to this request.
\<close>

theorem references_drawn_from_backend:
  assumes "own_property (body (POST fetch request_json)) (js ''references'') = Some (JArr rs)"
    and "r \<in> set rs"
  shows "\<exists>req sent data urls url.
           request_json = Some req \<and> backend_request req = Inr sent \<and>
           fetch sent = Response True (Some data) \<and>
           own_property data (js ''references'') = Some (JArr urls) \<and>
           JStr url \<in> set urls \<and>
           own_property r (js ''page_url'') = Some (JStr url)"
proof (cases "try_POST fetch request_json")
  case (Inl e)
  then have "body (POST fetch request_json) = to_wire error_payload"
    by (simp add: POST_def NextResponse_json_def)
  with assms(1) show ?thesis
    by (simp add: error_payload_has_no_references)
next
  case (Inr v)
  then obtain req sent data where req: "request_json = Some req"
    and sent: "backend_request req = Inr sent"
    and reply: "fetch sent = Response True (Some data)"
    and v: "transform data = Inr v"
    unfolding try_POST_Inr by blast
  from v obtain urls where data: "data \<noteq> JNull"
    and urls: "own_property data (js ''references'') = Some (JArr (map JStr urls))"
    unfolding transform_Inr by blast
  have "rs = map (\<lambda>u. JObj [(js ''page_url'', JStr u),
                             (js ''page_title'', JStr (page_title_of u))]) urls"
    using assms(1) unfolding POST_success [where fetch = fetch, OF req sent reply data urls]
    by (simp add: body_references)
  with assms(2) obtain url where url: "url \<in> set urls"
    and r: "r = JObj [(js ''page_url'', JStr url), (js ''page_title'', JStr (page_title_of url))]"
    by auto
  from r have "own_property r (js ''page_url'') = Some (JStr url)"
    by (simp add: own_property_def)
  moreover from url have "JStr url \<in> set (map JStr urls)"
    by simp
  ultimately show ?thesis
    using req sent reply urls by blast
qed

theorem references_drawn_from_backend_witness:
  "own_property (body (POST (\<lambda>_. Response True (Some reply_without_evaluation)) (Some question_body)))
     (js ''references'') =
     Some (JArr [JObj [(js ''page_url'', JStr (js ''/faq/returns'')),
                       (js ''page_title'', JStr (js ''returns''))]]) \<and>
   (\<exists>req sent data urls url.
      Some question_body = Some req \<and> backend_request req = Inr sent \<and>
      (\<lambda>_. Response True (Some reply_without_evaluation)) sent = Response True (Some data) \<and>
      own_property data (js ''references'') = Some (JArr urls) \<and>
      JStr url \<in> set urls \<and>
      own_property (JObj [(js ''page_url'', JStr (js ''/faq/returns'')),
                          (js ''page_title'', JStr (js ''returns''))]) (js ''page_url'') =
        Some (JStr url))"
proof -
  have a: "own_property
             (body (POST (\<lambda>_. Response True (Some reply_without_evaluation)) (Some question_body)))
             (js ''references'') =
           Some (JArr [JObj [(js ''page_url'', JStr (js ''/faq/returns'')),
                             (js ''page_title'', JStr (js ''returns''))]])"
    by (simp add: eval_defs question_body_def reply_without_evaluation_def js_def)
  have b: "JObj [(js ''page_url'', JStr (js ''/faq/returns'')),
                 (js ''page_title'', JStr (js ''returns''))] \<in>
           set [JObj [(js ''page_url'', JStr (js ''/faq/returns'')),
                      (js ''page_title'', JStr (js ''returns''))]]"
    by simp
  from references_drawn_from_backend [OF a b] a show ?thesis
    by blast
qed

subsection \<open>C5: the scores are not clamped\<close>

text \<open>
  C5 as stated asks for every delivered score to lie within 0 to 10. A score of 15 from
  the backend is delivered as 15.
\<close>

theorem score_15_is_delivered:
  "own_property
     (body (POST (\<lambda>_. Response True (Some reply_score_15)) (Some question_body)))
     (js ''scores'') =
     Some (JObj [(js ''factual_accuracy'', JNum (Finite 15)),
                 (js ''relevance'', JNum (Finite 9)),
                 (js ''completeness'', JNum (Finite 8)),
                 (js ''context_usage'', JNum (Finite 7))]) \<and>
   \<not> in_scale (Finite 15)"
  by (simp add: eval_defs question_body_def reply_score_15_def js_def in_scale_def)

text \<open>
  C5, amended. When the backend's reply can be transformed and its
  \<^verbatim>\<open>evaluation.llm_evaluation.scores\<close> is truthy, the endpoint delivers that value as
  \<^verbatim>\<open>JSON.stringify\<close> writes it, with no clamping: a number stands under a key of the
  delivered scores exactly when the same number, finite, stands under that key in the
  backend's scores.
\<close>

theorem scores_delivered_unclamped:
  assumes "request_json = Some req" and "backend_request req = Inr sent"
    and "fetch sent = Response True (Some data)" and "data \<noteq> JNull"
    and "own_property data (js ''references'') = Some (JArr (map JStr urls))"
    and "backend_scores data = Some s" and "truthy s"
  shows "own_property (body (POST fetch request_json)) (js ''scores'') = Some (to_wire s) \<and>
         (\<forall>k n. own_property (to_wire s) k = Some (JNum n) \<longleftrightarrow>
                  (\<exists>r. n = Finite r \<and> own_property s k = Some (JNum (Finite r))))"
proof -
  have "to_wire (or_else (backend_scores data) default_scores) = to_wire s"
    using assms(6,7) by (simp add: or_else_def)
  then have "own_property (body (POST fetch request_json)) (js ''scores'') = Some (to_wire s)"
    unfolding POST_success [where fetch = fetch, OF assms(1-5)]
    by (simp add: body_scores)
  moreover have "own_property (to_wire s) k = Some (JNum n) \<longleftrightarrow>
      (\<exists>r. n = Finite r \<and> own_property s k = Some (JNum (Finite r)))" for k n
    unfolding own_property_to_wire by (cases "own_property s k") (auto simp: to_wire_eq_JNum)
  ultimately show ?thesis
    by blast
qed

theorem scores_delivered_unclamped_witness:
  "own_property
     (body (POST (\<lambda>_. Response True (Some reply_score_15)) (Some question_body)))
     (js ''scores'') =
     Some (to_wire (JObj [(js ''factual_accuracy'', JNum (Finite 15)),
                          (js ''relevance'', JNum (Finite 9)),
                          (js ''completeness'', JNum (Finite 8)),
                          (js ''context_usage'', JNum (Finite 7))])) \<and>
   own_property (to_wire (JObj [(js ''factual_accuracy'', JNum (Finite 15)),
                                (js ''relevance'', JNum (Finite 9)),
                                (js ''completeness'', JNum (Finite 8)),
                                (js ''context_usage'', JNum (Finite 7))]))
     (js ''factual_accuracy'') = Some (JNum (Finite 15))"
proof -
  let ?s = "JObj [(js ''factual_accuracy'', JNum (Finite 15)),
                  (js ''relevance'', JNum (Finite 9)),
                  (js ''completeness'', JNum (Finite 8)),
                  (js ''context_usage'', JNum (Finite 7))]"
  have b: "reply_score_15 \<noteq> JNull"
    by (simp add: reply_score_15_def)
  have c: "own_property reply_score_15 (js ''references'') =
             Some (JArr (map JStr [js ''/faq/returns'']))"
    by (simp add: reply_score_15_def own_property_def js_def)
  have d: "backend_scores reply_score_15 = Some ?s"
    by (simp add: reply_score_15_def backend_scores_def optional_member_def own_property_def js_def)
  have e: "truthy ?s"
    by simp
  have f: "own_property ?s (js ''factual_accuracy'') = Some (JNum (Finite 15))"
    by (simp add: own_property_def)
  from scores_delivered_unclamped
    [where fetch = "\<lambda>_. Response True (Some reply_score_15)",
      OF refl backend_request_question_body refl b c d e] f
  show ?thesis
    by blast
qed

subsection \<open>C6: repeated references\<close>

text \<open>
  C6 as stated asks for the delivered references to be distinct. A URL the backend names
  twice is delivered twice.
\<close>

theorem repeated_reference_is_kept:
  "own_property
     (body (POST (\<lambda>_. Response True (Some reply_repeated_reference)) (Some question_body)))
     (js ''references'') =
     Some (JArr [JObj [(js ''page_url'', JStr (js ''/faq/returns'')),
                       (js ''page_title'', JStr (js ''returns''))],
                 JObj [(js ''page_url'', JStr (js ''/faq/returns'')),
                       (js ''page_title'', JStr (js ''returns''))]]) \<and>
   \<not> distinct [JObj [(js ''page_url'', JStr (js ''/faq/returns'')),
                     (js ''page_title'', JStr (js ''returns''))],
               JObj [(js ''page_url'', JStr (js ''/faq/returns'')),
                     (js ''page_title'', JStr (js ''returns''))]]"
  by (simp add: eval_defs question_body_def reply_repeated_reference_def js_def)

text \<open>
  C6, amended. When the backend's reply can be transformed, the delivered references are
  one entry for each element of the backend's list, in the backend's order, repeated URLs
  included; they are distinct exactly when the backend's list is.
\<close>

theorem references_one_per_backend_url:
  assumes "request_json = Some req" and "backend_request req = Inr sent"
    and "fetch sent = Response True (Some data)" and "data \<noteq> JNull"
    and "own_property data (js ''references'') = Some (JArr (map JStr urls))"
  shows "own_property (body (POST fetch request_json)) (js ''references'') =
           Some (JArr (map (\<lambda>u. JObj [(js ''page_url'', JStr u),
                                         (js ''page_title'', JStr (page_title_of u))]) urls)) \<and>
         (distinct (map (\<lambda>u. JObj [(js ''page_url'', JStr u),
                                     (js ''page_title'', JStr (page_title_of u))]) urls)
            \<longleftrightarrow> distinct urls)"
proof -
  have "inj_on (\<lambda>u. JObj [(js ''page_url'', JStr u), (js ''page_title'', JStr (page_title_of u))])
          (set urls)"
    by (simp add: inj_on_def)
  then show ?thesis
    unfolding POST_success [where fetch = fetch, OF assms] by (simp add: body_references distinct_map)
qed

theorem references_one_per_backend_url_witness:
  "own_property
     (body (POST (\<lambda>_. Response True (Some reply_repeated_reference)) (Some question_body)))
     (js ''references'') =
     Some (JArr (map (\<lambda>u. JObj [(js ''page_url'', JStr u),
                                   (js ''page_title'', JStr (page_title_of u))])
                  [js ''/faq/returns'', js ''/faq/returns''])) \<and>
   (distinct (map (\<lambda>u. JObj [(js ''page_url'', JStr u),
                               (js ''page_title'', JStr (page_title_of u))])
               [js ''/faq/returns'', js ''/faq/returns''])
      \<longleftrightarrow> distinct [js ''/faq/returns'', js ''/faq/returns''])"
proof -
  have a: "backend_request question_body = Inr question_body"
    by (simp add: backend_request_def get_member_def own_property_def field_def
        question_body_def js_def)
  have b: "reply_repeated_reference \<noteq> JNull"
    by (simp add: reply_repeated_reference_def)
  have c: "own_property reply_repeated_reference (js ''references'') =
             Some (JArr (map JStr [js ''/faq/returns'', js ''/faq/returns'']))"
    by (simp add: reply_repeated_reference_def own_property_def js_def)
  show ?thesis
    by (rule references_one_per_backend_url
        [where fetch = "\<lambda>_. Response True (Some reply_repeated_reference)", OF refl a refl b c])
qed

subsection \<open>C7: the page's message when the call fails\<close>

text \<open>
  C7. For a submitted question (one that is not blank, so that the call is made), when
  \<^verbatim>\<open>fetch\<close> rejects or the response is not ok, the page appends the user's message and
  then an agent message whose text is the fixed apology, with no references and no scores;
  neither the references section nor the scores section is rendered for it.
\<close>

theorem failed_call_appends_apology:
  assumes "trim (question st) \<noteq> []"
    and "fetch_chat e (question st) = ChatRejected \<or>
         (\<exists>b. fetch_chat e (question st) = ChatResponse False b)"
  shows "messages (fst (handleSubmit e st)) =
           messages st @
           [\<lparr>msg_id = toString (now_user e), msg_type = User, msg_text = question st,
             msg_references = None, msg_scores = None\<rparr>,
            \<lparr>msg_id = toString (now_agent e + 1), msg_type = Agent,
             msg_text = js (''I apologize, but I encountered an error while processing your '' @
                            ''request. Please try asking your question again.''),
             msg_references = None, msg_scores = None\<rparr>] \<and>
         \<not> rendersReferences (last (messages (fst (handleSubmit e st)))) \<and>
         \<not> rendersScores (last (messages (fst (handleSubmit e st))))"
  using assms
  by (auto simp: handleSubmit_def on_error_def apology_def Let_def rendersReferences_def
      rendersScores_def)

theorem failed_call_appends_apology_witness:
  "trim (js ''hi'') \<noteq> [] \<and>
   messages (fst (handleSubmit
      \<lparr>now_user = 41, now_agent = 42, fetch_chat = (\<lambda>_. ChatRejected), toLowerCase = id,
        numberToString = (\<lambda>_. [])\<rparr>
      \<lparr>question = js ''hi'', loading = False, messages = [], showReferences = Map.empty\<rparr>)) =
     [\<lparr>msg_id = js ''41'', msg_type = User, msg_text = js ''hi'',
       msg_references = None, msg_scores = None\<rparr>,
      \<lparr>msg_id = js ''43'', msg_type = Agent,
       msg_text = js (''I apologize, but I encountered an error while processing your '' @
                      ''request. Please try asking your question again.''),
       msg_references = None, msg_scores = None\<rparr>]"
proof -
  let ?e = "\<lparr>now_user = 41, now_agent = 42, fetch_chat = (\<lambda>_. ChatRejected), toLowerCase = id,
        numberToString = (\<lambda>_. [])\<rparr>"
  let ?st = "\<lparr>question = js ''hi'', loading = False, messages = [], showReferences = Map.empty\<rparr>"
  have a: "trim (question ?st) \<noteq> []"
    by (simp add: trim_def isWhiteSpace_def js_def)
  have b: "fetch_chat ?e (question ?st) = ChatRejected \<or>
           (\<exists>b. fetch_chat ?e (question ?st) = ChatResponse False b)"
    by simp
  have c: "toString 41 = js ''41''" "toString 43 = js ''43''"
    by (simp_all add: toString.simps js_def)
  from failed_call_appends_apology [OF a b] a c show ?thesis
    by simp
qed

subsection \<open>C8: the title of a reference\<close>

text \<open>
  C8. When the backend's reply can be transformed, the endpoint delivers one reference for
  each URL of the backend's list, and the reference at the place of a URL \<open>url\<close> is
  \<^verbatim>\<open>{page_url, page_title}\<close> with \<^verbatim>\<open>page_url\<close> equal to \<open>url\<close> unchanged and
  \<^verbatim>\<open>page_title\<close> equal to the substring \<open>t\<close> after the last \<^verbatim>\<open>/\<close> of \<open>url\<close> (so
  \<open>url = pre @ '/' # t\<close> with no \<^verbatim>\<open>/\<close> in \<open>t\<close>), except when \<open>t\<close> is empty (the
  URL ends in \<^verbatim>\<open>/\<close>), where \<^verbatim>\<open>page_title\<close> is the whole URL. A URL with no
  \<^verbatim>\<open>/\<close> has itself as \<^verbatim>\<open>page_title\<close>.
\<close>

theorem page_title_last_segment:
  assumes "request_json = Some req" and "backend_request req = Inr sent"
    and "fetch sent = Response True (Some data)" and "data \<noteq> JNull"
    and "own_property data (js ''references'') = Some (JArr (map JStr urls))"
  shows "\<exists>rs. own_property (body (POST fetch request_json)) (js ''references'') = Some (JArr rs) \<and>
           length rs = length urls \<and>
           (\<forall>i<length urls.
              (\<forall>pre t. urls ! i = pre @ of_char CHR ''/'' # t \<and> of_char CHR ''/'' \<notin> set t \<longrightarrow>
                 rs ! i = JObj [(js ''page_url'', JStr (urls ! i)),
                                (js ''page_title'', JStr (if t = [] then urls ! i else t))]) \<and>
              (of_char CHR ''/'' \<notin> set (urls ! i) \<longrightarrow>
                 rs ! i = JObj [(js ''page_url'', JStr (urls ! i)),
                                (js ''page_title'', JStr (urls ! i))]))"
proof -
  let ?rs = "map (\<lambda>u. JObj [(js ''page_url'', JStr u), (js ''page_title'', JStr (page_title_of u))]) urls"
  have "own_property (body (POST fetch request_json)) (js ''references'') = Some (JArr ?rs)"
    unfolding POST_success [where fetch = fetch, OF assms] by (simp add: body_references)
  moreover have "length ?rs = length urls"
    by simp
  moreover have "\<forall>i<length urls.
      (\<forall>pre t. urls ! i = pre @ of_char CHR ''/'' # t \<and> of_char CHR ''/'' \<notin> set t \<longrightarrow>
         ?rs ! i = JObj [(js ''page_url'', JStr (urls ! i)),
                         (js ''page_title'', JStr (if t = [] then urls ! i else t))]) \<and>
      (of_char CHR ''/'' \<notin> set (urls ! i) \<longrightarrow>
         ?rs ! i = JObj [(js ''page_url'', JStr (urls ! i)),
                         (js ''page_title'', JStr (urls ! i))])"
  proof (intro allI impI conjI)
    fix i pre t
    assume i: "i < length urls"
      and "urls ! i = pre @ of_char CHR ''/'' # t \<and> of_char CHR ''/'' \<notin> set t"
    then have "page_title_of (urls ! i) = (if t = [] then urls ! i else t)"
      using page_title_of_after_slash by blast
    with i show "?rs ! i = JObj [(js ''page_url'', JStr (urls ! i)),
                         (js ''page_title'', JStr (if t = [] then urls ! i else t))]"
      by (simp only: nth_map)
  next
    fix i
    assume i: "i < length urls" and "of_char CHR ''/'' \<notin> set (urls ! i)"
    then have "page_title_of (urls ! i) = urls ! i"
      using page_title_of_no_slash by blast
    with i show "?rs ! i = JObj [(js ''page_url'', JStr (urls ! i)),
                         (js ''page_title'', JStr (urls ! i))]"
      by (simp only: nth_map)
  qed
  ultimately show ?thesis
    by blast
qed

theorem page_title_last_segment_witness:
  "own_property
     (body (POST (\<lambda>_. Response True (Some reply_three_references)) (Some question_body)))
     (js ''references'') =
     Some (JArr [JObj [(js ''page_url'', JStr (js ''https://voy.io/faq/returns'')),
                       (js ''page_title'', JStr (js ''returns''))],
                 JObj [(js ''page_url'', JStr (js ''https://voy.io/faq/'')),
                       (js ''page_title'', JStr (js ''https://voy.io/faq/''))],
                 JObj [(js ''page_url'', JStr (js ''returns'')),
                       (js ''page_title'', JStr (js ''returns''))]])"
proof -
  let ?urls = "[js ''https://voy.io/faq/returns'', js ''https://voy.io/faq/'', js ''returns'']"
  have b: "reply_three_references \<noteq> JNull"
    by (simp add: reply_three_references_def)
  have c: "own_property reply_three_references (js ''references'') = Some (JArr (map JStr ?urls))"
    by (simp add: reply_three_references_def own_property_def js_def)
  from page_title_last_segment
    [where fetch = "\<lambda>_. Response True (Some reply_three_references)",
      OF refl backend_request_question_body refl b c]
  obtain rs where rs: "own_property
       (body (POST (\<lambda>_. Response True (Some reply_three_references)) (Some question_body)))
       (js ''references'') = Some (JArr rs)"
    and len: "length rs = length ?urls"
    and each: "\<forall>i<length ?urls.
        (\<forall>pre t. ?urls ! i = pre @ of_char CHR ''/'' # t \<and> of_char CHR ''/'' \<notin> set t \<longrightarrow>
           rs ! i = JObj [(js ''page_url'', JStr (?urls ! i)),
                          (js ''page_title'', JStr (if t = [] then ?urls ! i else t))]) \<and>
        (of_char CHR ''/'' \<notin> set (?urls ! i) \<longrightarrow>
           rs ! i = JObj [(js ''page_url'', JStr (?urls ! i)),
                          (js ''page_title'', JStr (?urls ! i))])"
    by blast
  have s0: "?urls ! 0 = js ''https://voy.io/faq'' @ of_char CHR ''/'' # js ''returns'' \<and>
            of_char CHR ''/'' \<notin> set (js ''returns'')"
    by (simp add: js_def)
  have s1: "?urls ! 1 = js ''https://voy.io/faq'' @ of_char CHR ''/'' # [] \<and>
            of_char CHR ''/'' \<notin> set ([] :: jsstring)"
    by (simp add: js_def)
  have s2: "of_char CHR ''/'' \<notin> set (?urls ! 2)"
    by (simp add: js_def)
  have ne: "js ''returns'' \<noteq> []"
    by (simp add: js_def)
  have i0: "0 < length ?urls" and i1: "1 < length ?urls" and i2: "2 < length ?urls"
    by simp_all
  from each [rule_format, OF i0, THEN conjunct1, rule_format, OF s0] ne
  have r0: "rs ! 0 = JObj [(js ''page_url'', JStr (js ''https://voy.io/faq/returns'')),
                           (js ''page_title'', JStr (js ''returns''))]"
    by simp
  from each [rule_format, OF i1, THEN conjunct1, rule_format, OF s1]
  have r1: "rs ! 1 = JObj [(js ''page_url'', JStr (js ''https://voy.io/faq/'')),
                           (js ''page_title'', JStr (js ''https://voy.io/faq/''))]"
    by simp
  from each [rule_format, OF i2, THEN conjunct2, rule_format, OF s2]
  have r2: "rs ! 2 = JObj [(js ''page_url'', JStr (js ''returns'')),
                           (js ''page_title'', JStr (js ''returns''))]"
    by simp
  from len obtain x y z where "rs = [x, y, z]"
    by (auto simp: length_Suc_conv numeral_3_eq_3)
  with r0 r1 r2 have "rs = [JObj [(js ''page_url'', JStr (js ''https://voy.io/faq/returns'')),
                       (js ''page_title'', JStr (js ''returns''))],
                 JObj [(js ''page_url'', JStr (js ''https://voy.io/faq/'')),
                       (js ''page_title'', JStr (js ''https://voy.io/faq/''))],
                 JObj [(js ''page_url'', JStr (js ''returns'')),
                       (js ''page_title'', JStr (js ''returns''))]]"
    by simp
  with rs show ?thesis
    by simp
qed

subsection \<open>C9: a blank question\<close>

text \<open>
  C9. When every code unit of the question is white space (the empty question included),
  \<^verbatim>\<open>handleSubmit\<close> leaves the whole state as it was, the message list with it, and
  sends no request.
\<close>

theorem blank_question_is_noop:
  assumes "\<forall>c\<in>set (question st). isWhiteSpace c"
  shows "handleSubmit e st = (st, [])"
  using assms by (simp add: handleSubmit_def trim_empty_iff)

theorem blank_question_is_noop_witness:
  "isWhiteSpace 0x20 \<and> isWhiteSpace 0x09 \<and> isWhiteSpace 0x3000 \<and>
   handleSubmit \<lparr>now_user = 41, now_agent = 42, fetch_chat = (\<lambda>_. ChatRejected), toLowerCase = id,
        numberToString = (\<lambda>_. [])\<rparr>
     \<lparr>question = [0x20, 0x09, 0x3000], loading = False, messages = [], showReferences = Map.empty\<rparr> =
     (\<lparr>question = [0x20, 0x09, 0x3000], loading = False, messages = [], showReferences = Map.empty\<rparr>, [])"
proof -
  have a: "\<forall>c\<in>set (question \<lparr>question = [0x20, 0x09, 0x3000], loading = False, messages = [],
      showReferences = Map.empty\<rparr>). isWhiteSpace c"
    by (simp add: isWhiteSpace_def)
  from blank_question_is_noop [OF a] a show ?thesis
    by simp
qed

subsection \<open>C10: the colour of a score\<close>

text \<open>
  C10. A finite score is green exactly when it is greater than 8, red exactly when it is
  less than 5, and yellow exactly when it lies from 5 to 8, so 5 and 8 are yellow;
  \<^verbatim>\<open>NaN\<close> is yellow, and the infinities are green and red.
\<close>

theorem confidence_color_thresholds:
  "(getConfidenceColor (Finite r) = js ''bg-green-100 text-green-800'' \<longleftrightarrow> 8 < r) \<and>
   (getConfidenceColor (Finite r) = js ''bg-red-100 text-red-800'' \<longleftrightarrow> r < 5) \<and>
   (getConfidenceColor (Finite r) = js ''bg-yellow-100 text-yellow-800'' \<longleftrightarrow> 5 \<le> r \<and> r \<le> 8) \<and>
   getConfidenceColor (Finite 5) = js ''bg-yellow-100 text-yellow-800'' \<and>
   getConfidenceColor (Finite 8) = js ''bg-yellow-100 text-yellow-800'' \<and>
   getConfidenceColor NaN = js ''bg-yellow-100 text-yellow-800'' \<and>
   getConfidenceColor PosInf = js ''bg-green-100 text-green-800'' \<and>
   getConfidenceColor NegInf = js ''bg-red-100 text-red-800''"
proof -
  have gr: "js ''bg-green-100 text-green-800'' \<noteq> js ''bg-red-100 text-red-800''"
    by (simp add: js_def)
  have gy: "js ''bg-green-100 text-green-800'' \<noteq> js ''bg-yellow-100 text-yellow-800''"
    by (simp add: js_def)
  have ry: "js ''bg-red-100 text-red-800'' \<noteq> js ''bg-yellow-100 text-yellow-800''"
    by (simp add: js_def)
  show ?thesis
    using gr gy ry by (auto simp: getConfidenceColor_def js_gt_def)
qed

end
